theory Spec2Isabelle
  imports Complex_Main
begin

section \<open>Data model (src/types/floorplan.ts)\<close>

text \<open>
  The TypeScript \<^verbatim>\<open>number\<close> type is modelled by \<^typ>\<open>real\<close>: arithmetic is exact, and
  the values NaN and the infinities do not exist. Identifiers are strings. Each interface
  is a record; the field names carry the interface name as a prefix, since the source
  reuses \<^verbatim>\<open>id\<close>, \<^verbatim>\<open>position\<close>, \<^verbatim>\<open>width\<close> and so on across interfaces.
\<close>

record Point =
  pt_x :: real
  pt_y :: real

datatype Units = imperial | metric

datatype RoomType =
  bedroom | bathroom | kitchen | living | dining | office | hallway | closet | laundry
  | garage | other

record Wall =
  wall_id :: string
  wall_start :: Point
  wall_end :: Point
  wall_thickness :: real

datatype Swing = swing_left | swing_right

record Door =
  door_id :: string
  door_wallId :: string
  door_position :: real
  door_width :: real
  door_swingDirection :: Swing
  door_swingInward :: bool

record Window =
  window_id :: string
  window_wallId :: string
  window_position :: real
  window_width :: real
  window_height :: real

record Room =
  room_id :: string
  room_name :: string
  room_type :: RoomType
  room_wallIds :: "string list"
  room_color :: "string option"

text \<open>
  \<^verbatim>\<open>width\<close> and \<^verbatim>\<open>height\<close> of a furniture item are declared \<^verbatim>\<open>number\<close>, but the agent
  bridge can hand \<^verbatim>\<open>undefined\<close> to \<^verbatim>\<open>addFurniture\<close> (see \<open>lookupDimensions\<close> below), and
  the store keeps what it is given: \<open>None\<close> is \<^verbatim>\<open>undefined\<close>.
\<close>

record FurnitureItem =
  furn_id :: string
  furn_type :: string
  furn_position :: Point
  furn_rotation :: real
  furn_width :: "real option"
  furn_height :: "real option"
  furn_label :: "string option"

record Floorplan =
  fp_id :: string
  fp_name :: string
  units :: Units
  scale :: real
  gridSize :: real
  walls :: "Wall list"
  doors :: "Door list"
  windows :: "Window list"
  rooms :: "Room list"
  furniture :: "FurnitureItem list"
  backgroundImage :: "string option"

text \<open>The constant table \<^verbatim>\<open>DEFAULTS\<close>.\<close>

definition DEFAULTS_wallThickness :: real where "DEFAULTS_wallThickness = 6"
definition DEFAULTS_doorWidth :: real where "DEFAULTS_doorWidth = 32"
definition DEFAULTS_windowWidth :: real where "DEFAULTS_windowWidth = 36"
definition DEFAULTS_windowHeight :: real where "DEFAULTS_windowHeight = 48"
definition DEFAULTS_gridSize :: real where "DEFAULTS_gridSize = 12"
definition DEFAULTS_snapIncrement :: real where "DEFAULTS_snapIncrement = 6"
definition DEFAULTS_scale :: real where "DEFAULTS_scale = 10"

text \<open>
  \<^verbatim>\<open>FURNITURE_DIMENSIONS\<close>: furniture type to (width, height, label), looked up by key.
\<close>

definition FURNITURE_DIMENSIONS :: "(string \<times> (real \<times> real \<times> string)) list" where
  "FURNITURE_DIMENSIONS =
    [(''bed-twin'', (39, 75, ''Twin Bed'')),
     (''bed-full'', (54, 75, ''Full Bed'')),
     (''bed-queen'', (60, 80, ''Queen Bed'')),
     (''bed-king'', (76, 80, ''King Bed'')),
     (''sofa-2'', (60, 36, ''2-Seat Sofa'')),
     (''sofa-3'', (84, 36, ''3-Seat Sofa'')),
     (''dining-table-4'', (48, 36, ''Dining Table (4)'')),
     (''dining-table-6'', (72, 36, ''Dining Table (6)'')),
     (''desk'', (60, 30, ''Desk'')),
     (''chair'', (20, 20, ''Chair'')),
     (''armchair'', (32, 34, ''Armchair'')),
     (''coffee-table'', (48, 24, ''Coffee Table'')),
     (''nightstand'', (24, 18, ''Nightstand'')),
     (''dresser'', (60, 18, ''Dresser'')),
     (''toilet'', (18, 28, ''Toilet'')),
     (''sink-bathroom'', (24, 20, ''Bathroom Sink'')),
     (''bathtub'', (60, 32, ''Bathtub'')),
     (''shower'', (36, 36, ''Shower'')),
     (''sink-kitchen'', (33, 22, ''Kitchen Sink'')),
     (''stove'', (30, 26, ''Stove'')),
     (''refrigerator'', (36, 30, ''Refrigerator'')),
     (''dishwasher'', (24, 24, ''Dishwasher''))]"

text \<open>
  \<^verbatim>\<open>FURNITURE_DIMENSIONS\<close> is an object literal, so \<^verbatim>\<open>FURNITURE_DIMENSIONS[type]\<close> also finds
  the properties that every object inherits from \<^verbatim>\<open>Object.prototype\<close>. Each of them is a
  function or an object, hence truthy, and has neither a \<^verbatim>\<open>width\<close> nor a \<^verbatim>\<open>height\<close>.
\<close>

definition Object_prototype_keys :: "string list" where
  "Object_prototype_keys =
    [''constructor'', ''__defineGetter__'', ''__defineSetter__'', ''hasOwnProperty'',
     ''__lookupGetter__'', ''__lookupSetter__'', ''isPrototypeOf'', ''propertyIsEnumerable'',
     ''toString'', ''valueOf'', ''__proto__'', ''toLocaleString'']"

text \<open>
  \<^verbatim>\<open>FURNITURE_DIMENSIONS[type]\<close> as the bridge uses it: \<open>None\<close> when the value is
  \<^verbatim>\<open>undefined\<close> (the \<^verbatim>\<open>!dimensions\<close> branch), otherwise the \<^verbatim>\<open>width\<close> and \<^verbatim>\<open>height\<close> read from
  the value, each \<open>None\<close> when the value has no such property.
\<close>

definition lookupDimensions :: "string \<Rightarrow> (real option \<times> real option) option" where
  "lookupDimensions t =
    (case map_of FURNITURE_DIMENSIONS t of
       Some entry \<Rightarrow> Some (Some (fst entry), Some (fst (snd entry)))
     | None \<Rightarrow> if List.member Object_prototype_keys t then Some (None, None) else None)"

section \<open>The history store (src/store/floorplan-store.ts)\<close>

text \<open>
  \<^verbatim>\<open>generateId()\<close> reads the clock and a random source. The model takes the generated
  identifier as an argument of every operation that calls it.
\<close>

definition createEmptyFloorplan :: "string \<Rightarrow> Floorplan" where
  "createEmptyFloorplan newId =
    \<lparr>fp_id = newId, fp_name = ''Untitled Floorplan'', units = imperial,
     scale = DEFAULTS_scale, gridSize = DEFAULTS_gridSize,
     walls = [], doors = [], windows = [], rooms = [], furniture = [],
     backgroundImage = None\<rparr>"

record HistoryState =
  past :: "Floorplan list"
  present :: Floorplan
  future :: "Floorplan list"

definition MAX_HISTORY :: nat where "MAX_HISTORY = 50"

text \<open>The store as created: \<^verbatim>\<open>past: [], present: createEmptyFloorplan(), future: []\<close>.\<close>

definition initialState :: "string \<Rightarrow> HistoryState" where
  "initialState newId = \<lparr>past = [], present = createEmptyFloorplan newId, future = []\<rparr>"

subsection \<open>Recipes run on drafts\<close>

text \<open>
  The store is built with the \<^verbatim>\<open>immer\<close> middleware: \<^verbatim>\<open>set(recipe)\<close> runs the recipe on a
  draft of the current state and then finalises the draft into the next, immutable state.
  Inside a recipe \<^verbatim>\<open>state.present\<close> is an object reference (the draft proxy of the present
  document), and the recipes of this store use it in two ways:
  \<^item> \<^verbatim>\<open>pushToHistory\<close> puts the reference itself, not a copy of the document, at the end
    of the new \<^verbatim>\<open>past\<close> array: \<^verbatim>\<open>[...state.past, state.present]\<close>;
  \<^item> the action then either writes through the reference
    (\<^verbatim>\<open>state.present.walls.push(...)\<close>, \<^verbatim>\<open>state.present.walls = ...\<close>), which changes the one
    object that both \<^verbatim>\<open>state.present\<close> and the new \<^verbatim>\<open>past\<close> entry refer to, or assigns a
    different object to \<^verbatim>\<open>state.present\<close> (\<^verbatim>\<open>state.present = createEmptyFloorplan()\<close>),
    which leaves the referenced object as it was.

  When the recipe ends, every reference to the proxy is replaced by the one finished
  document. The other elements of \<^verbatim>\<open>past\<close> and \<^verbatim>\<open>future\<close> are never written to by any
  recipe, so they finish as the documents they were; and two occurrences of one document
  in a finished state get separate proxies in the next recipe, so sharing matters within
  a recipe only.

  The model makes the sharing explicit with a one-cell store: a reference is either a
  document that this recipe does not write to, or \<open>DraftOfPresent\<close>, the proxy of the
  present document, whose current contents are kept in the cell \<open>d_doc\<close>.
\<close>

datatype Ref = Obj Floorplan | DraftOfPresent

record Draft =
  d_past :: "Ref list"
  d_present :: Ref
  d_future :: "Ref list"
  d_doc :: Floorplan

definition createDraft :: "HistoryState \<Rightarrow> Draft" where
  "createDraft s =
    \<lparr>d_past = map Obj (past s), d_present = DraftOfPresent,
     d_future = map Obj (future s), d_doc = present s\<rparr>"

fun resolve :: "Floorplan \<Rightarrow> Ref \<Rightarrow> Floorplan" where
  "resolve doc (Obj f) = f"
| "resolve doc DraftOfPresent = doc"

definition finishDraft :: "Draft \<Rightarrow> HistoryState" where
  "finishDraft d =
    \<lparr>past = map (resolve (d_doc d)) (d_past d),
     present = resolve (d_doc d) (d_present d),
     future = map (resolve (d_doc d)) (d_future d)\<rparr>"

text \<open>\<^verbatim>\<open>set((state) => { ... })\<close>\<close>

definition setState :: "(Draft \<Rightarrow> Draft) \<Rightarrow> HistoryState \<Rightarrow> HistoryState" where
  "setState recipe s = finishDraft (recipe (createDraft s))"

text \<open>
  A write through \<^verbatim>\<open>state.present\<close> (\<^verbatim>\<open>state.present.walls.push(...)\<close>,
  \<^verbatim>\<open>state.present.units = ...\<close>): it changes the object that \<^verbatim>\<open>state.present\<close> refers to.
\<close>

definition writePresent :: "(Floorplan \<Rightarrow> Floorplan) \<Rightarrow> Draft \<Rightarrow> Draft" where
  "writePresent f d =
    (case d_present d of
       DraftOfPresent \<Rightarrow> d\<lparr>d_doc := f (d_doc d)\<rparr>
     | Obj p \<Rightarrow> d\<lparr>d_present := Obj (f p)\<rparr>)"

text \<open>\<^verbatim>\<open>xs.slice(-n)\<close>: the last \<open>n\<close> elements, all of them when there are fewer.\<close>

definition slice_last :: "nat \<Rightarrow> 'a list \<Rightarrow> 'a list" where
  "slice_last n xs = drop (length xs - n) xs"

text \<open>
  \<^verbatim>\<open>pushToHistory(state)\<close> followed by \<^verbatim>\<open>Object.assign(state, ...)\<close>: the new \<^verbatim>\<open>past\<close> is
  \<^verbatim>\<open>[...state.past, state.present].slice(-MAX_HISTORY)\<close>, \<^verbatim>\<open>present\<close> is assigned to
  itself, \<^verbatim>\<open>future\<close> becomes empty.
\<close>

definition pushToHistory :: "Draft \<Rightarrow> Draft" where
  "pushToHistory state =
    state\<lparr>d_past := slice_last MAX_HISTORY (d_past state @ [d_present state]),
          d_future := []\<rparr>"

subsection \<open>History actions\<close>

definition undo :: "HistoryState \<Rightarrow> HistoryState" where
  "undo = setState (\<lambda>state.
     if length (d_past state) = 0 then state
     else let previous = last (d_past state)
          in state\<lparr>d_past := butlast (d_past state),
                   d_future := d_present state # d_future state,
                   d_present := previous\<rparr>)"

definition redo :: "HistoryState \<Rightarrow> HistoryState" where
  "redo = setState (\<lambda>state.
     if length (d_future state) = 0 then state
     else let next = hd (d_future state)
          in state\<lparr>d_past := d_past state @ [d_present state],
                   d_future := tl (d_future state),
                   d_present := next\<rparr>)"

definition canUndo :: "HistoryState \<Rightarrow> bool" where
  "canUndo s = (length (past s) > 0)"

definition canRedo :: "HistoryState \<Rightarrow> bool" where
  "canRedo s = (length (future s) > 0)"

subsection \<open>Floorplan actions\<close>

definition setFloorplan :: "Floorplan \<Rightarrow> HistoryState \<Rightarrow> HistoryState" where
  "setFloorplan floorplan = setState (\<lambda>state.
     (pushToHistory state)\<lparr>d_present := Obj floorplan\<rparr>)"

definition resetFloorplan :: "string \<Rightarrow> HistoryState \<Rightarrow> HistoryState" where
  "resetFloorplan newId = setState (\<lambda>state.
     (pushToHistory state)\<lparr>d_present := Obj (createEmptyFloorplan newId)\<rparr>)"

definition setName :: "string \<Rightarrow> HistoryState \<Rightarrow> HistoryState" where
  "setName n = setState (\<lambda>state. writePresent (\<lambda>p. p\<lparr>fp_name := n\<rparr>) state)"

definition setUnits :: "Units \<Rightarrow> HistoryState \<Rightarrow> HistoryState" where
  "setUnits u = setState (\<lambda>state.
     writePresent (\<lambda>p. p\<lparr>units := u\<rparr>) (pushToHistory state))"

definition setBackgroundImage :: "string option \<Rightarrow> HistoryState \<Rightarrow> HistoryState" where
  "setBackgroundImage imageData = setState (\<lambda>state.
     writePresent (\<lambda>p. p\<lparr>backgroundImage := imageData\<rparr>) (pushToHistory state))"

subsection \<open>Element actions\<close>

text \<open>
  \<^verbatim>\<open>xs.find(pred)\<close> followed by \<^verbatim>\<open>if (x) Object.assign(x, updates)\<close>: the first element
  that satisfies the predicate is patched, and nothing happens when there is none.
\<close>

fun patchFirst :: "('a \<Rightarrow> bool) \<Rightarrow> ('a \<Rightarrow> 'a) \<Rightarrow> 'a list \<Rightarrow> 'a list" where
  "patchFirst P f [] = []"
| "patchFirst P f (x # xs) = (if P x then f x # xs else x # patchFirst P f xs)"

text \<open>
  \<^verbatim>\<open>Partial<Omit<T, 'id'>>\<close>: every field but the identifier, each present or absent.
  \<open>None\<close> is an absent key. For the optional fields \<^verbatim>\<open>color\<close> and \<^verbatim>\<open>label\<close> a present
  key may carry \<^verbatim>\<open>undefined\<close> (\<open>Some None\<close>).
\<close>

record WallUpdates =
  wu_start :: "Point option"
  wu_end :: "Point option"
  wu_thickness :: "real option"

record DoorUpdates =
  du_wallId :: "string option"
  du_position :: "real option"
  du_width :: "real option"
  du_swingDirection :: "Swing option"
  du_swingInward :: "bool option"

record WindowUpdates =
  nu_wallId :: "string option"
  nu_position :: "real option"
  nu_width :: "real option"
  nu_height :: "real option"

record RoomUpdates =
  ru_name :: "string option"
  ru_type :: "RoomType option"
  ru_wallIds :: "string list option"
  ru_color :: "string option option"

record FurnitureUpdates =
  fu_type :: "string option"
  fu_position :: "Point option"
  fu_rotation :: "real option"
  fu_width :: "real option"
  fu_height :: "real option"
  fu_label :: "string option option"

definition orElse :: "'a option \<Rightarrow> 'a \<Rightarrow> 'a" where
  "orElse v d = (case v of None \<Rightarrow> d | Some x \<Rightarrow> x)"

definition assignWall :: "WallUpdates \<Rightarrow> Wall \<Rightarrow> Wall" where
  "assignWall u w =
    w\<lparr>wall_start := orElse (wu_start u) (wall_start w),
      wall_end := orElse (wu_end u) (wall_end w),
      wall_thickness := orElse (wu_thickness u) (wall_thickness w)\<rparr>"

definition assignDoor :: "DoorUpdates \<Rightarrow> Door \<Rightarrow> Door" where
  "assignDoor u d =
    d\<lparr>door_wallId := orElse (du_wallId u) (door_wallId d),
      door_position := orElse (du_position u) (door_position d),
      door_width := orElse (du_width u) (door_width d),
      door_swingDirection := orElse (du_swingDirection u) (door_swingDirection d),
      door_swingInward := orElse (du_swingInward u) (door_swingInward d)\<rparr>"

definition assignWindow :: "WindowUpdates \<Rightarrow> Window \<Rightarrow> Window" where
  "assignWindow u w =
    w\<lparr>window_wallId := orElse (nu_wallId u) (window_wallId w),
      window_position := orElse (nu_position u) (window_position w),
      window_width := orElse (nu_width u) (window_width w),
      window_height := orElse (nu_height u) (window_height w)\<rparr>"

definition assignRoom :: "RoomUpdates \<Rightarrow> Room \<Rightarrow> Room" where
  "assignRoom u r =
    r\<lparr>room_name := orElse (ru_name u) (room_name r),
      room_type := orElse (ru_type u) (room_type r),
      room_wallIds := orElse (ru_wallIds u) (room_wallIds r),
      room_color := orElse (ru_color u) (room_color r)\<rparr>"

definition assignFurniture :: "FurnitureUpdates \<Rightarrow> FurnitureItem \<Rightarrow> FurnitureItem" where
  "assignFurniture u f =
    f\<lparr>furn_type := orElse (fu_type u) (furn_type f),
      furn_position := orElse (fu_position u) (furn_position f),
      furn_rotation := orElse (fu_rotation u) (furn_rotation f),
      furn_width := (case fu_width u of None \<Rightarrow> furn_width f | Some v \<Rightarrow> Some v),
      furn_height := (case fu_height u of None \<Rightarrow> furn_height f | Some v \<Rightarrow> Some v),
      furn_label := orElse (fu_label u) (furn_label f)\<rparr>"

text \<open>Walls. An omitted \<^verbatim>\<open>thickness\<close> takes the default.\<close>

definition addWall :: "string \<Rightarrow> Point \<Rightarrow> Point \<Rightarrow> real option \<Rightarrow> HistoryState \<Rightarrow> HistoryState" where
  "addWall newId start end' thickness = setState (\<lambda>state.
     writePresent (\<lambda>p. p\<lparr>walls := walls p @
         [\<lparr>wall_id = newId, wall_start = start, wall_end = end',
           wall_thickness = orElse thickness DEFAULTS_wallThickness\<rparr>]\<rparr>)
       (pushToHistory state))"

definition updateWall :: "string \<Rightarrow> WallUpdates \<Rightarrow> HistoryState \<Rightarrow> HistoryState" where
  "updateWall i updates = setState (\<lambda>state.
     writePresent (\<lambda>p. p\<lparr>walls := patchFirst (\<lambda>w. wall_id w = i) (assignWall updates) (walls p)\<rparr>)
       (pushToHistory state))"

definition removeWall :: "string \<Rightarrow> HistoryState \<Rightarrow> HistoryState" where
  "removeWall i = setState (\<lambda>state.
     writePresent (\<lambda>p. p\<lparr>windows := filter (\<lambda>w. window_wallId w \<noteq> i) (windows p)\<rparr>)
       (writePresent (\<lambda>p. p\<lparr>doors := filter (\<lambda>d. door_wallId d \<noteq> i) (doors p)\<rparr>)
         (writePresent (\<lambda>p. p\<lparr>walls := filter (\<lambda>w. wall_id w \<noteq> i) (walls p)\<rparr>)
           (pushToHistory state))))"

text \<open>Doors.\<close>

definition addDoor :: "string \<Rightarrow> string \<Rightarrow> real \<Rightarrow> real option \<Rightarrow> HistoryState \<Rightarrow> HistoryState" where
  "addDoor newId wallId position width = setState (\<lambda>state.
     writePresent (\<lambda>p. p\<lparr>doors := doors p @
         [\<lparr>door_id = newId, door_wallId = wallId, door_position = position,
           door_width = orElse width DEFAULTS_doorWidth,
           door_swingDirection = swing_left, door_swingInward = True\<rparr>]\<rparr>)
       (pushToHistory state))"

definition updateDoor :: "string \<Rightarrow> DoorUpdates \<Rightarrow> HistoryState \<Rightarrow> HistoryState" where
  "updateDoor i updates = setState (\<lambda>state.
     writePresent (\<lambda>p. p\<lparr>doors := patchFirst (\<lambda>d. door_id d = i) (assignDoor updates) (doors p)\<rparr>)
       (pushToHistory state))"

definition removeDoor :: "string \<Rightarrow> HistoryState \<Rightarrow> HistoryState" where
  "removeDoor i = setState (\<lambda>state.
     writePresent (\<lambda>p. p\<lparr>doors := filter (\<lambda>d. door_id d \<noteq> i) (doors p)\<rparr>)
       (pushToHistory state))"

text \<open>Windows.\<close>

definition addWindow ::
  "string \<Rightarrow> string \<Rightarrow> real \<Rightarrow> real option \<Rightarrow> real option \<Rightarrow> HistoryState \<Rightarrow> HistoryState" where
  "addWindow newId wallId position width height = setState (\<lambda>state.
     writePresent (\<lambda>p. p\<lparr>windows := windows p @
         [\<lparr>window_id = newId, window_wallId = wallId, window_position = position,
           window_width = orElse width DEFAULTS_windowWidth,
           window_height = orElse height DEFAULTS_windowHeight\<rparr>]\<rparr>)
       (pushToHistory state))"

definition updateWindow :: "string \<Rightarrow> WindowUpdates \<Rightarrow> HistoryState \<Rightarrow> HistoryState" where
  "updateWindow i updates = setState (\<lambda>state.
     writePresent (\<lambda>p. p\<lparr>windows :=
         patchFirst (\<lambda>w. window_id w = i) (assignWindow updates) (windows p)\<rparr>)
       (pushToHistory state))"

definition removeWindow :: "string \<Rightarrow> HistoryState \<Rightarrow> HistoryState" where
  "removeWindow i = setState (\<lambda>state.
     writePresent (\<lambda>p. p\<lparr>windows := filter (\<lambda>w. window_id w \<noteq> i) (windows p)\<rparr>)
       (pushToHistory state))"

text \<open>Rooms.\<close>

definition addRoom :: "string \<Rightarrow> string \<Rightarrow> RoomType \<Rightarrow> string list \<Rightarrow> HistoryState \<Rightarrow> HistoryState" where
  "addRoom newId n t wallIds = setState (\<lambda>state.
     writePresent (\<lambda>p. p\<lparr>rooms := rooms p @
         [\<lparr>room_id = newId, room_name = n, room_type = t, room_wallIds = wallIds,
           room_color = None\<rparr>]\<rparr>)
       (pushToHistory state))"

definition updateRoom :: "string \<Rightarrow> RoomUpdates \<Rightarrow> HistoryState \<Rightarrow> HistoryState" where
  "updateRoom i updates = setState (\<lambda>state.
     writePresent (\<lambda>p. p\<lparr>rooms := patchFirst (\<lambda>r. room_id r = i) (assignRoom updates) (rooms p)\<rparr>)
       (pushToHistory state))"

definition removeRoom :: "string \<Rightarrow> HistoryState \<Rightarrow> HistoryState" where
  "removeRoom i = setState (\<lambda>state.
     writePresent (\<lambda>p. p\<lparr>rooms := filter (\<lambda>r. room_id r \<noteq> i) (rooms p)\<rparr>)
       (pushToHistory state))"

text \<open>Furniture. \<^verbatim>\<open>width\<close> and \<^verbatim>\<open>height\<close> are stored as they arrive.\<close>

definition addFurniture ::
  "string \<Rightarrow> string \<Rightarrow> Point \<Rightarrow> real option \<Rightarrow> real option \<Rightarrow> HistoryState \<Rightarrow> HistoryState" where
  "addFurniture newId t position width height = setState (\<lambda>state.
     writePresent (\<lambda>p. p\<lparr>furniture := furniture p @
         [\<lparr>furn_id = newId, furn_type = t, furn_position = position, furn_rotation = 0,
           furn_width = width, furn_height = height, furn_label = None\<rparr>]\<rparr>)
       (pushToHistory state))"

definition updateFurniture :: "string \<Rightarrow> FurnitureUpdates \<Rightarrow> HistoryState \<Rightarrow> HistoryState" where
  "updateFurniture i updates = setState (\<lambda>state.
     writePresent (\<lambda>p. p\<lparr>furniture :=
         patchFirst (\<lambda>f. furn_id f = i) (assignFurniture updates) (furniture p)\<rparr>)
       (pushToHistory state))"

definition removeFurniture :: "string \<Rightarrow> HistoryState \<Rightarrow> HistoryState" where
  "removeFurniture i = setState (\<lambda>state.
     writePresent (\<lambda>p. p\<lparr>furniture := filter (\<lambda>f. furn_id f \<noteq> i) (furniture p)\<rparr>)
       (pushToHistory state))"

text \<open>Bulk removal: \<^verbatim>\<open>ids.includes(x.id)\<close> is list membership.\<close>

definition removeSelected :: "string list \<Rightarrow> HistoryState \<Rightarrow> HistoryState" where
  "removeSelected ids = setState (\<lambda>state.
     writePresent (\<lambda>p. p\<lparr>rooms := filter (\<lambda>r. \<not> List.member ids (room_id r)) (rooms p)\<rparr>)
       (writePresent (\<lambda>p. p\<lparr>furniture := filter (\<lambda>f. \<not> List.member ids (furn_id f)) (furniture p)\<rparr>)
         (writePresent (\<lambda>p. p\<lparr>windows := filter (\<lambda>w. \<not> List.member ids (window_id w)) (windows p)\<rparr>)
           (writePresent (\<lambda>p. p\<lparr>doors := filter (\<lambda>d. \<not> List.member ids (door_id d)) (doors p)\<rparr>)
             (writePresent (\<lambda>p. p\<lparr>walls := filter (\<lambda>w. \<not> List.member ids (wall_id w)) (walls p)\<rparr>)
               (pushToHistory state))))))"

subsection \<open>The mutating commands as data\<close>

text \<open>
  One constructor per mutating action of the store, with the arguments of the action
  (and the generated identifier, for the actions that generate one).
\<close>

datatype Command =
    SetFloorplan Floorplan
  | ResetFloorplan string
  | SetName string
  | SetUnits Units
  | SetBackgroundImage "string option"
  | AddWall string Point Point "real option"
  | UpdateWall string WallUpdates
  | RemoveWall string
  | AddDoor string string real "real option"
  | UpdateDoor string DoorUpdates
  | RemoveDoor string
  | AddWindow string string real "real option" "real option"
  | UpdateWindow string WindowUpdates
  | RemoveWindow string
  | AddRoom string string RoomType "string list"
  | UpdateRoom string RoomUpdates
  | RemoveRoom string
  | AddFurniture string string Point "real option" "real option"
  | UpdateFurniture string FurnitureUpdates
  | RemoveFurniture string
  | RemoveSelected "string list"

fun exec :: "Command \<Rightarrow> HistoryState \<Rightarrow> HistoryState" where
  "exec (SetFloorplan f) = setFloorplan f"
| "exec (ResetFloorplan newId) = resetFloorplan newId"
| "exec (SetName n) = setName n"
| "exec (SetUnits u) = setUnits u"
| "exec (SetBackgroundImage b) = setBackgroundImage b"
| "exec (AddWall newId a b t) = addWall newId a b t"
| "exec (UpdateWall i u) = updateWall i u"
| "exec (RemoveWall i) = removeWall i"
| "exec (AddDoor newId w pos wd) = addDoor newId w pos wd"
| "exec (UpdateDoor i u) = updateDoor i u"
| "exec (RemoveDoor i) = removeDoor i"
| "exec (AddWindow newId w pos wd ht) = addWindow newId w pos wd ht"
| "exec (UpdateWindow i u) = updateWindow i u"
| "exec (RemoveWindow i) = removeWindow i"
| "exec (AddRoom newId n t ws) = addRoom newId n t ws"
| "exec (UpdateRoom i u) = updateRoom i u"
| "exec (RemoveRoom i) = removeRoom i"
| "exec (AddFurniture newId t pos wd ht) = addFurniture newId t pos wd ht"
| "exec (UpdateFurniture i u) = updateFurniture i u"
| "exec (RemoveFurniture i) = removeFurniture i"
| "exec (RemoveSelected ids) = removeSelected ids"

text \<open>Commands run in order, the first of the list first.\<close>

fun run :: "Command list \<Rightarrow> HistoryState \<Rightarrow> HistoryState" where
  "run [] s = s"
| "run (c # cs) s = run cs (exec c s)"

section \<open>Snapping (src/hooks/useFabric.ts)\<close>

text \<open>
  \<^verbatim>\<open>Math.round\<close> returns the nearest integer, the larger one at a tie: the floor of the
  argument plus one half.
\<close>

definition Math_round :: "real \<Rightarrow> real" where
  "Math_round v = of_int \<lfloor>v + 1 / 2\<rfloor>"

text \<open>
  \<^verbatim>\<open>snapToGridPoint(x, y)\<close>; the flag \<^verbatim>\<open>snapToGrid\<close> of the UI store, which the callback
  closes over, is the first argument.
\<close>

definition snapToGridPoint :: "bool \<Rightarrow> real \<Rightarrow> real \<Rightarrow> Point" where
  "snapToGridPoint snapToGrid x y =
    (if \<not> snapToGrid then \<lparr>pt_x = x, pt_y = y\<rparr>
     else let snapSize = DEFAULTS_snapIncrement * DEFAULTS_scale
          in \<lparr>pt_x = Math_round (x / snapSize) * snapSize,
              pt_y = Math_round (y / snapSize) * snapSize\<rparr>)"

section \<open>The wall-drawing gesture (canvas component in Toolbar.tsx)\<close>

datatype Tool =
  tool_select | tool_pan | tool_wall | tool_door | tool_window | tool_room | tool_furniture
  | tool_measure

text \<open>
  What the release handler reads besides the store: the active tool and the snap flag of
  the UI store, the component's \<^verbatim>\<open>isDrawing\<close> flag and \<^verbatim>\<open>drawStartRef\<close>, and whether the
  canvas exists (\<^verbatim>\<open>fabricRef.current\<close>). Points here are in canvas pixels.
\<close>

record Canvas =
  activeTool :: Tool
  snapToGrid :: bool
  isDrawing :: bool
  drawStart :: "Point option"
  hasCanvas :: bool

text \<open>
  \<^verbatim>\<open>handleMouseUp\<close>. The pointer position reported by the canvas is the argument
  \<open>pointer\<close>; \<open>newId\<close> is the identifier \<^verbatim>\<open>addWall\<close> would generate. The preview line
  belongs to the rendering surface and is not part of the model.
\<close>

definition handleMouseUp ::
  "string \<Rightarrow> Point \<Rightarrow> Canvas \<times> HistoryState \<Rightarrow> Canvas \<times> HistoryState" where
  "handleMouseUp newId pointer cs =
    (let c = fst cs; s = snd cs in
     if \<not> isDrawing c \<or> activeTool c \<noteq> tool_wall then (c, s)
     else if \<not> hasCanvas c then (c, s)
     else case drawStart c of
       None \<Rightarrow> (c, s)
     | Some start \<Rightarrow>
        (let snapped = (if snapToGrid c
                        then snapToGridPoint (snapToGrid c) (pt_x pointer) (pt_y pointer)
                        else \<lparr>pt_x = pt_x pointer, pt_y = pt_y pointer\<rparr>);
             dx = pt_x snapped - pt_x start;
             dy = pt_y snapped - pt_y start;
             len = sqrt (dx * dx + dy * dy);
             s' = (if len > 10
                   then addWall newId
                          \<lparr>pt_x = pt_x start / DEFAULTS_scale, pt_y = pt_y start / DEFAULTS_scale\<rparr>
                          \<lparr>pt_x = pt_x snapped / DEFAULTS_scale,
                           pt_y = pt_y snapped / DEFAULTS_scale\<rparr>
                          None s
                   else s)
         in (c\<lparr>isDrawing := False, drawStart := None\<rparr>, s')))"

section \<open>The agent bridge (chat component in Toolbar.tsx)\<close>

text \<open>
  A value as \<^verbatim>\<open>JSON.parse\<close> produces it, or \<^verbatim>\<open>undefined\<close> for a key that is absent, and
  its truthiness as \<^verbatim>\<open>if (v)\<close> tests it.
\<close>

datatype JsValue =
  JUndefined | JNull | JBool bool | JNumber real | JString string | JArray | JObject

fun truthy :: "JsValue \<Rightarrow> bool" where
  "truthy JUndefined = False"
| "truthy JNull = False"
| "truthy (JBool b) = b"
| "truthy (JNumber r) = (r \<noteq> 0)"
| "truthy (JString s) = (s \<noteq> [])"
| "truthy JArray = True"
| "truthy JObject = True"

text \<open>
  \<^verbatim>\<open>executeToolCall(tool, args)\<close> switches on the tool name and casts \<^verbatim>\<open>args\<close> to the shape
  of that case. A call is modelled by one constructor per \<^verbatim>\<open>case\<close> label, carrying the
  arguments typed as the cast of that case declares them (an optional field is an
  \<open>option\<close>); any other name is \<open>UnknownTool\<close>. The argument \<^verbatim>\<open>confirm\<close> of \<^verbatim>\<open>clearAll\<close>
  is kept as the untyped value that arrives, because the code tests its truthiness.
\<close>

datatype ToolCall =
    Call_addWall real real real real "real option"
  | Call_removeWall string
  | Call_addDoor string real "real option" "Swing option"
  | Call_addWindow string real "real option" "real option"
  | Call_addFurniture string real real "real option"
  | Call_moveFurniture string real real
  | Call_rotateFurniture string real
  | Call_removeFurniture string
  | Call_addRoom string RoomType "string list"
  | Call_clearAll JsValue
  | UnknownTool string

definition noFurnitureUpdates :: FurnitureUpdates where
  "noFurnitureUpdates =
    \<lparr>fu_type = None, fu_position = None, fu_rotation = None, fu_width = None,
     fu_height = None, fu_label = None\<rparr>"

text \<open>
  The result is the store after the call and the boolean the function returns.
  \<open>newId\<close> is the identifier generated by the store action the call reaches;
  \<^verbatim>\<open>!!id\<close> is true for a non-empty string. No store action throws, so the
  \<^verbatim>\<open>catch\<close> branch is never taken.
\<close>

fun executeToolCall :: "string \<Rightarrow> ToolCall \<Rightarrow> HistoryState \<Rightarrow> HistoryState \<times> bool" where
  "executeToolCall newId (Call_addWall startX startY endX endY thickness) s =
    (addWall newId \<lparr>pt_x = startX, pt_y = startY\<rparr> \<lparr>pt_x = endX, pt_y = endY\<rparr> thickness s,
     True)"
| "executeToolCall newId (Call_removeWall wallId) s = (removeWall wallId s, True)"
| "executeToolCall newId (Call_addDoor wallId position width swingDirection) s =
    (addDoor newId wallId position width s, newId \<noteq> [])"
| "executeToolCall newId (Call_addWindow wallId position width height) s =
    (addWindow newId wallId position width height s, newId \<noteq> [])"
| "executeToolCall newId (Call_addFurniture t x y rotation) s =
    (case lookupDimensions t of
       None \<Rightarrow> (s, False)
     | Some dimensions \<Rightarrow>
        (let s1 = addFurniture newId t \<lparr>pt_x = x, pt_y = y\<rparr>
                    (fst dimensions) (snd dimensions) s;
             s2 = (case rotation of
                     None \<Rightarrow> s1
                   | Some r \<Rightarrow>
                       if r \<noteq> 0 \<and> newId \<noteq> []
                       then updateFurniture newId (noFurnitureUpdates\<lparr>fu_rotation := Some r\<rparr>) s1
                       else s1)
         in (s2, newId \<noteq> [])))"
| "executeToolCall newId (Call_moveFurniture furnitureId x y) s =
    (updateFurniture furnitureId
       (noFurnitureUpdates\<lparr>fu_position := Some \<lparr>pt_x = x, pt_y = y\<rparr>\<rparr>) s, True)"
| "executeToolCall newId (Call_rotateFurniture furnitureId rotation) s =
    (updateFurniture furnitureId (noFurnitureUpdates\<lparr>fu_rotation := Some rotation\<rparr>) s, True)"
| "executeToolCall newId (Call_removeFurniture furnitureId) s =
    (removeFurniture furnitureId s, True)"
| "executeToolCall newId (Call_addRoom n t wallIds) s = (addRoom newId n t wallIds s, True)"
| "executeToolCall newId (Call_clearAll confirm) s =
    (if truthy confirm then (resetFloorplan newId s, True) else (s, False))"
| "executeToolCall newId (UnknownTool n) s = (s, False)"

section \<open>Reachable history states\<close>

text \<open>
  The states the store can be in: the store as created, and any state obtained from a
  reachable one by a mutating command, by \<^verbatim>\<open>undo()\<close> or by \<^verbatim>\<open>redo()\<close>.
\<close>

inductive reachable :: "HistoryState \<Rightarrow> bool" where
  reach_init: "reachable (initialState newId)"
| reach_exec: "reachable s \<Longrightarrow> reachable (exec c s)"
| reach_undo: "reachable s \<Longrightarrow> reachable (undo s)"
| reach_redo: "reachable s \<Longrightarrow> reachable (redo s)"

section \<open>A sample document\<close>

text \<open>
  The store after \<^verbatim>\<open>addWall({x:0,y:0},{x:120,y:0})\<close>, \<^verbatim>\<open>addDoor(wallId, 0.5)\<close> and
  \<^verbatim>\<open>addWindow(wallId, 0.75)\<close> on the store as created: one wall carrying one door and one
  window.
\<close>

definition examplePlan :: HistoryState where
  "examplePlan =
     addWindow ''n1'' ''w1'' (3 / 4) None None
       (addDoor ''d1'' ''w1'' (1 / 2) None
          (addWall ''w1'' \<lparr>pt_x = 0, pt_y = 0\<rparr> \<lparr>pt_x = 120, pt_y = 0\<rparr> None
             (initialState ''fp0'')))"

text \<open>
  The sample document after \<^verbatim>\<open>addDoor('ghost', 0.5)\<close> and \<^verbatim>\<open>addWindow('ghost', 0.25)\<close>:
  \<^verbatim>\<open>addDoor\<close> and \<^verbatim>\<open>addWindow\<close> do not look the wall up, so the document now has a door
  and a window that name a wall identifier no wall carries.
\<close>

definition orphanPlan :: HistoryState where
  "orphanPlan =
     addWindow ''n9'' ''ghost'' (1 / 4) None None
       (addDoor ''d9'' ''ghost'' (1 / 2) None examplePlan)"

text \<open>
  A canvas in the middle of a wall gesture: the wall tool is active, a drag that began at
  \<open>start\<close> is in progress.
\<close>

definition drawingCanvas :: "bool \<Rightarrow> Point \<Rightarrow> Canvas" where
  "drawingCanvas snap start =
    \<lparr>activeTool = tool_wall, snapToGrid = snap, isDrawing = True, drawStart = Some start,
     hasCanvas = True\<rparr>"

section \<open>What the store actions compute\<close>

text \<open>
  The recipes are run on the draft model once and for all; the rest of the development
  uses the resulting equations between history states.
\<close>

lemma resolve_Obj_map: "map (resolve doc \<circ> Obj) xs = xs"
  by (induction xs) simp_all

lemma map_slice_last: "map f (slice_last n xs) = slice_last n (map f xs)"
  by (simp add: slice_last_def drop_map)

lemma length_slice_last: "length (slice_last n xs) = min n (length xs)"
  by (simp add: slice_last_def)

lemma writePresent_comp: "writePresent g (writePresent f d) = writePresent (g \<circ> f) d"
  by (simp add: writePresent_def split: Ref.splits)

text \<open>
  An action that pushes and then writes through \<^verbatim>\<open>state.present\<close>: the entry appended to
  \<^verbatim>\<open>past\<close> is the proxy that the write goes to, so it finalises to the written document.
\<close>

lemma push_then_write:
  "setState (\<lambda>state. writePresent f (pushToHistory state)) s =
    \<lparr>past = slice_last MAX_HISTORY (past s @ [f (present s)]),
     present = f (present s), future = []\<rparr>"
  by (simp add: setState_def finishDraft_def writePresent_def pushToHistory_def createDraft_def
      map_slice_last resolve_Obj_map)

text \<open>
  An action that pushes and then assigns a new object to \<^verbatim>\<open>state.present\<close>: the proxy is
  never written to, so the entry appended to \<^verbatim>\<open>past\<close> is the document before the action.
\<close>

lemma push_then_assign:
  "setState (\<lambda>state. (pushToHistory state)\<lparr>d_present := Obj v\<rparr>) s =
    \<lparr>past = slice_last MAX_HISTORY (past s @ [present s]), present = v, future = []\<rparr>"
  by (simp add: setState_def finishDraft_def pushToHistory_def createDraft_def
      map_slice_last resolve_Obj_map)

lemma undo_eq:
  "undo s = (if past s = [] then s
             else \<lparr>past = butlast (past s), present = last (past s),
                   future = present s # future s\<rparr>)"
  by (simp add: undo_def setState_def finishDraft_def createDraft_def resolve_Obj_map
      map_butlast last_map Let_def)

lemma redo_eq:
  "redo s = (if future s = [] then s
             else \<lparr>past = past s @ [present s], present = hd (future s),
                   future = tl (future s)\<rparr>)"
  by (simp add: redo_def setState_def finishDraft_def createDraft_def resolve_Obj_map
      map_tl hd_map Let_def)

lemma setName_eq: "setName n s = s\<lparr>present := (present s)\<lparr>fp_name := n\<rparr>\<rparr>"
  by (simp add: setName_def setState_def finishDraft_def createDraft_def resolve_Obj_map
      writePresent_def)

lemmas action_defs =
  setFloorplan_def resetFloorplan_def setUnits_def setBackgroundImage_def
  addWall_def updateWall_def removeWall_def addDoor_def updateDoor_def removeDoor_def
  addWindow_def updateWindow_def removeWindow_def addRoom_def updateRoom_def
  removeRoom_def addFurniture_def updateFurniture_def removeFurniture_def
  removeSelected_def

lemmas action_eqs = action_defs writePresent_comp push_then_write push_then_assign

text \<open>Every command but \<^verbatim>\<open>setName\<close> goes through \<^verbatim>\<open>pushToHistory\<close>.\<close>

lemma exec_pushes:
  "(\<forall>n. c \<noteq> SetName n) \<Longrightarrow>
     future (exec c s) = [] \<and>
     (\<exists>x. past (exec c s) = slice_last MAX_HISTORY (past s @ [x]))"
  by (cases c) (auto simp add: action_eqs)

lemma exec_future_empty: "future s = [] \<Longrightarrow> future (exec c s) = []"
proof (cases "\<exists>n. c = SetName n")
  case True
  assume "future s = []"
  with True show ?thesis by (auto simp: setName_eq)
next
  case False
  then show ?thesis using exec_pushes [of c s] by simp
qed

lemma run_future_empty: "future s = [] \<Longrightarrow> future (run cs s) = []"
  by (induction cs arbitrary: s) (simp_all add: exec_future_empty)

section \<open>Undo and redo\<close>

lemma undo_fix: "past s = [] \<Longrightarrow> (undo ^^ n) s = s"
  by (induction n) (simp_all add: undo_eq)

lemma redo_fix: "future s = [] \<Longrightarrow> (redo ^^ n) s = s"
  by (induction n) (simp_all add: redo_eq)

lemma redo_undo: "past s \<noteq> [] \<Longrightarrow> redo (undo s) = s"
  by (simp add: undo_eq redo_eq)

lemma length_past_undo: "length (past (undo s)) = length (past s) - 1"
  by (simp add: undo_eq)

text \<open>
  \<open>n\<close> undos followed by \<open>n\<close> redos: the undos stop when \<^verbatim>\<open>past\<close> is empty, the first
  redos take back exactly the undos that happened, and the remaining redos act on the
  state the undos started from.
\<close>

lemma redo_undo_funpow:
  "(redo ^^ n) ((undo ^^ n) s) = (redo ^^ (n - length (past s))) s"
proof (induction n arbitrary: s)
  case 0
  show ?case by simp
next
  case (Suc n)
  show ?case
  proof (cases "past s = []")
    case True
    then show ?thesis by (simp add: undo_fix del: funpow.simps)
  next
    case False
    have "(redo ^^ Suc n) ((undo ^^ Suc n) s) = redo ((redo ^^ n) ((undo ^^ n) (undo s)))"
      by (simp add: funpow_swap1)
    also have "\<dots> = redo ((redo ^^ (n - length (past (undo s)))) (undo s))"
      by (simp only: Suc.IH)
    also have "\<dots> = (redo ^^ (n - length (past (undo s)))) (redo (undo s))"
      by (simp add: funpow_swap1)
    also have "\<dots> = (redo ^^ (Suc n - length (past s))) s"
    proof -
      have "n - (length (past s) - 1) = Suc n - length (past s)"
        using False by (cases "past s") simp_all
      then show ?thesis using False by (simp add: redo_undo length_past_undo)
    qed
    finally show ?thesis .
  qed
qed

text \<open>
  C1. Undo/redo inverse law. Start from a history state with nothing to redo (the store as
  created is one), apply any sequence of \<open>n\<close> mutating commands, call \<^verbatim>\<open>undo()\<close> \<open>n\<close> times
  and then \<^verbatim>\<open>redo()\<close> \<open>n\<close> times: the present document is the document right after the
  \<open>n\<close>-th command, and so is the whole history state.
\<close>

theorem undo_redo_inverse:
  "future s0 = [] \<Longrightarrow>
     present ((redo ^^ length cs) ((undo ^^ length cs) (run cs s0))) = present (run cs s0)
     \<and> (redo ^^ length cs) ((undo ^^ length cs) (run cs s0)) = run cs s0"
proof -
  assume "future s0 = []"
  then have "future (run cs s0) = []" by (rule run_future_empty)
  then have "(redo ^^ length cs) ((undo ^^ length cs) (run cs s0)) = run cs s0"
    by (simp add: redo_undo_funpow redo_fix)
  then show ?thesis by simp
qed

theorem undo_redo_inverse_witness:
  "future (initialState ''fp0'') = [] \<and>
   present ((redo ^^ 2) ((undo ^^ 2)
     (run [AddWall ''w1'' \<lparr>pt_x = 0, pt_y = 0\<rparr> \<lparr>pt_x = 120, pt_y = 0\<rparr> None, SetName ''Home'']
        (initialState ''fp0''))))
   = present (run [AddWall ''w1'' \<lparr>pt_x = 0, pt_y = 0\<rparr> \<lparr>pt_x = 120, pt_y = 0\<rparr> None,
                   SetName ''Home''] (initialState ''fp0''))"
proof -
  have h: "future (initialState ''fp0'') = []" by (simp add: initialState_def)
  show ?thesis
    using h undo_redo_inverse [OF h,
      of "[AddWall ''w1'' \<lparr>pt_x = 0, pt_y = 0\<rparr> \<lparr>pt_x = 120, pt_y = 0\<rparr> None, SetName ''Home'']"]
    by (simp add: numeral_2_eq_2)
qed

section \<open>The history cap\<close>

text \<open>
  \<^verbatim>\<open>redo\<close> appends to \<^verbatim>\<open>past\<close> without truncating, so the bound on \<^verbatim>\<open>past\<close> alone is not
  inductive; the joint length of \<^verbatim>\<open>past\<close> and \<^verbatim>\<open>future\<close> is.
\<close>

lemma reachable_bound:
  "reachable s \<Longrightarrow> length (past s) + length (future s) \<le> MAX_HISTORY"
proof (induction rule: reachable.induct)
  case (reach_init newId)
  show ?case by (simp add: initialState_def)
next
  case (reach_exec s c)
  show ?case
  proof (cases "\<exists>n. c = SetName n")
    case True
    then show ?thesis using reach_exec.IH by (auto simp: setName_eq)
  next
    case False
    then obtain x where "future (exec c s) = []"
      and "past (exec c s) = slice_last MAX_HISTORY (past s @ [x])"
      using exec_pushes [of c s] by auto
    then show ?thesis by (simp add: length_slice_last)
  qed
next
  case (reach_undo s)
  then show ?case by (cases "past s") (simp_all add: undo_eq)
next
  case (reach_redo s)
  then show ?case by (cases "future s") (simp_all add: redo_eq)
qed

lemma slice_last_full:
  "length xs = n \<Longrightarrow> 0 < n \<Longrightarrow> slice_last n (xs @ [x]) = tl xs @ [x]"
  by (cases xs) (simp_all add: slice_last_def)

lemma length_past_undo_funpow: "length (past ((undo ^^ n) s)) = length (past s) - n"
  by (induction n) (simp_all add: length_past_undo)

lemma undo_saturates:
  assumes "length (past s) \<le> n"
  shows "(undo ^^ (n + k)) s = (undo ^^ n) s"
proof -
  have "past ((undo ^^ n) s) = []"
    using assms length_past_undo_funpow [of n s] by simp
  then have "(undo ^^ k) ((undo ^^ n) s) = (undo ^^ n) s" by (rule undo_fix)
  moreover have "(undo ^^ (n + k)) s = (undo ^^ k) ((undo ^^ n) s)"
    by (simp add: add.commute [of n k] funpow_add)
  ultimately show ?thesis by simp
qed

text \<open>
  C4. History cap. In every reachable state \<^verbatim>\<open>past\<close> holds at most 50 documents. When it
  holds 50, a command that pushes a snapshot keeps the length at 50 and drops the oldest
  entry: what was the second entry is now the first. After 50 undos any further undo
  changes nothing, so no document more than 50 steps back can be reached.
\<close>

theorem history_cap:
  "reachable s \<Longrightarrow>
     length (past s) \<le> 50
     \<and> (length (past s) = 50 \<and> (\<forall>n. c \<noteq> SetName n) \<longrightarrow>
          length (past (exec c s)) = 50 \<and> butlast (past (exec c s)) = tl (past s))
     \<and> (undo ^^ (50 + k)) s = (undo ^^ 50) s"
proof -
  assume r: "reachable s"
  have cap: "length (past s) \<le> 50"
    using reachable_bound [OF r] by (simp add: MAX_HISTORY_def)
  have evict: "length (past (exec c s)) = 50 \<and> butlast (past (exec c s)) = tl (past s)"
    if full: "length (past s) = 50" and push: "\<forall>n. c \<noteq> SetName n"
  proof -
    obtain x where "past (exec c s) = slice_last MAX_HISTORY (past s @ [x])"
      using exec_pushes [OF push, of s] by auto
    then have "past (exec c s) = tl (past s) @ [x]"
      using full by (simp add: slice_last_full MAX_HISTORY_def)
    then show ?thesis using full by simp
  qed
  have "(undo ^^ (50 + k)) s = (undo ^^ 50) s"
    using cap by (rule undo_saturates)
  with cap evict show ?thesis by blast
qed

lemma reachable_run: "reachable s \<Longrightarrow> reachable (run cs s)"
  by (induction cs arbitrary: s) (simp_all add: reach_exec)

lemma length_past_setUnits_run:
  "length (past s) \<le> MAX_HISTORY \<Longrightarrow>
   length (past (run (replicate n (SetUnits u)) s)) = min MAX_HISTORY (length (past s) + n)"
  by (induction n arbitrary: s)
     (auto simp add: setUnits_def push_then_write length_slice_last MAX_HISTORY_def)

theorem history_cap_witness:
  "reachable (run (replicate 50 (SetUnits metric)) (initialState ''fp0''))
   \<and> length (past (run (replicate 50 (SetUnits metric)) (initialState ''fp0''))) = 50
   \<and> (\<forall>n. RemoveWall ''w1'' \<noteq> SetName n)
   \<and> length (past (exec (RemoveWall ''w1'')
        (run (replicate 50 (SetUnits metric)) (initialState ''fp0'')))) = 50
   \<and> butlast (past (exec (RemoveWall ''w1'')
        (run (replicate 50 (SetUnits metric)) (initialState ''fp0''))))
      = tl (past (run (replicate 50 (SetUnits metric)) (initialState ''fp0'')))
   \<and> (undo ^^ (50 + 1)) (run (replicate 50 (SetUnits metric)) (initialState ''fp0''))
      = (undo ^^ 50) (run (replicate 50 (SetUnits metric)) (initialState ''fp0''))"
proof -
  have r: "reachable (run (replicate 50 (SetUnits metric)) (initialState ''fp0''))"
    by (rule reachable_run) (rule reach_init)
  have l: "length (past (run (replicate 50 (SetUnits metric)) (initialState ''fp0''))) = 50"
    by (simp add: length_past_setUnits_run initialState_def MAX_HISTORY_def)
  show ?thesis
    using r l history_cap [OF r, of "RemoveWall ''w1''" 1] by simp
qed

section \<open>Snapshots\<close>

lemmas eval_defs =
  action_eqs undo_eq redo_eq setName_eq slice_last_def MAX_HISTORY_def initialState_def
  createEmptyFloorplan_def orElse_def

lemma examplePlan_present:
  "present examplePlan =
    (createEmptyFloorplan ''fp0'')
      \<lparr>walls := [\<lparr>wall_id = ''w1'', wall_start = \<lparr>pt_x = 0, pt_y = 0\<rparr>,
                  wall_end = \<lparr>pt_x = 120, pt_y = 0\<rparr>, wall_thickness = 6\<rparr>],
       doors := [\<lparr>door_id = ''d1'', door_wallId = ''w1'', door_position = 1 / 2,
                  door_width = 32, door_swingDirection = swing_left,
                  door_swingInward = True\<rparr>],
       windows := [\<lparr>window_id = ''n1'', window_wallId = ''w1'', window_position = 3 / 4,
                    window_width = 36, window_height = 48\<rparr>]\<rparr>"
  by (simp add: examplePlan_def eval_defs DEFAULTS_wallThickness_def DEFAULTS_doorWidth_def
      DEFAULTS_windowWidth_def DEFAULTS_windowHeight_def)

text \<open>
  What one \<^verbatim>\<open>undo()\<close> brings back right after an action. After an action that writes
  through \<^verbatim>\<open>state.present\<close> it is the document the action produced; after an action that
  assigns a new object to \<^verbatim>\<open>state.present\<close> it is the document before the action.
\<close>

lemma undo_after_write:
  "present (undo (setState (\<lambda>state. writePresent f (pushToHistory state)) s)) = f (present s)"
  by (simp add: push_then_write undo_eq slice_last_def MAX_HISTORY_def)

lemma undo_after_assign:
  "present (undo (setState (\<lambda>state. (pushToHistory state)\<lparr>d_present := Obj v\<rparr>) s)) = present s"
  by (simp add: push_then_assign undo_eq slice_last_def MAX_HISTORY_def)

lemma setName_keeps_history: "past (setName n s) = past s \<and> future (setName n s) = future s"
  by (simp add: setName_eq)

text \<open>
  C2. One snapshot of the pre-mutation document per mutating command, and an empty
  \<^verbatim>\<open>future\<close> afterwards. The code at \<^verbatim>\<open>setName\<close>: on the store as created, the name changes
  from the default to the new one while \<^verbatim>\<open>past\<close> stays empty; and after an undo, which
  leaves one document to redo, \<^verbatim>\<open>setName\<close> leaves \<^verbatim>\<open>future\<close> non-empty.
\<close>

theorem setName_pushes_nothing:
  "fp_name (present (initialState ''fp0'')) = ''Untitled Floorplan''
   \<and> fp_name (present (setName ''Home'' (initialState ''fp0''))) = ''Home''
   \<and> past (setName ''Home'' (initialState ''fp0'')) = []
   \<and> future (setName ''Home'' (undo (setUnits metric (initialState ''fp0'')))) \<noteq> []"
  by (simp add: eval_defs)

text \<open>
  C3. Cascade atomicity. The code on the sample document, which has wall \<open>w1\<close> with one
  door and one window: after \<^verbatim>\<open>removeWall('w1')\<close> and a single \<^verbatim>\<open>undo()\<close> the present
  document still has no wall, no door and no window; the snapshot that the undo brings
  back is the document after the removal. A second \<^verbatim>\<open>undo()\<close> brings back the sample
  document, with the wall, the door and the window together.
\<close>

theorem removeWall_undo_keeps_removal:
  "map wall_id (walls (present examplePlan)) = [''w1'']
   \<and> map door_wallId (doors (present examplePlan)) = [''w1'']
   \<and> map window_wallId (windows (present examplePlan)) = [''w1'']
   \<and> walls (present (undo (removeWall ''w1'' examplePlan))) = []
   \<and> doors (present (undo (removeWall ''w1'' examplePlan))) = []
   \<and> windows (present (undo (removeWall ''w1'' examplePlan))) = []
   \<and> present (undo (undo (removeWall ''w1'' examplePlan))) = present examplePlan"
  by (simp add: examplePlan_def eval_defs)

section \<open>Doors and windows\<close>

text \<open>
  C5, as stated: the stored position lies in [0, 1] for every input position. It fails
  for \<^verbatim>\<open>addDoor('w1', 2)\<close>: the stored position is 2.
\<close>

theorem position_not_clamped_counterexample:
  "\<not> (0 \<le> door_position (last (doors (present (addDoor ''d1'' ''w1'' 2 None (initialState ''fp0'')))))
      \<and> door_position (last (doors (present (addDoor ''d1'' ''w1'' 2 None (initialState ''fp0''))))) \<le> 1)"
  by (simp add: eval_defs)

text \<open>
  C5, amended: \<^verbatim>\<open>addDoor\<close> and \<^verbatim>\<open>addWindow\<close> append one door (one window) whose position
  is the input position, unchanged, for every input.
\<close>

theorem position_stored_as_given:
  "doors (present (addDoor newId wallId position width s)) =
     doors (present s) @
       [\<lparr>door_id = newId, door_wallId = wallId, door_position = position,
         door_width = orElse width DEFAULTS_doorWidth,
         door_swingDirection = swing_left, door_swingInward = True\<rparr>]
   \<and> windows (present (addWindow newId wallId position width height s)) =
     windows (present s) @
       [\<lparr>window_id = newId, window_wallId = wallId, window_position = position,
         window_width = orElse width DEFAULTS_windowWidth,
         window_height = orElse height DEFAULTS_windowHeight\<rparr>]
   \<and> door_position (last (doors (present (addDoor newId wallId position width s)))) = position
   \<and> window_position (last (windows (present (addWindow newId wallId position width height s))))
       = position"
  by (simp add: action_eqs)

section \<open>Identifiers that name nothing\<close>

lemma patchFirst_absent: "\<forall>x\<in>set xs. \<not> P x \<Longrightarrow> patchFirst P f xs = xs"
  by (induction xs) simp_all

text \<open>
  C6. For an identifier that no element of the collection carries, each \<^verbatim>\<open>update*\<close> leaves
  the present document as it was; each \<^verbatim>\<open>remove*\<close>, and the bulk removal, applied twice
  gives the same present document as applied once.
\<close>

theorem dangling_id_noop:
  "(i \<notin> wall_id ` set (walls (present s)) \<longrightarrow> present (updateWall i wu s) = present s)
   \<and> (i \<notin> door_id ` set (doors (present s)) \<longrightarrow> present (updateDoor i du s) = present s)
   \<and> (i \<notin> window_id ` set (windows (present s)) \<longrightarrow> present (updateWindow i nu s) = present s)
   \<and> (i \<notin> room_id ` set (rooms (present s)) \<longrightarrow> present (updateRoom i ru s) = present s)
   \<and> (i \<notin> furn_id ` set (furniture (present s)) \<longrightarrow>
        present (updateFurniture i fu s) = present s)
   \<and> present (removeWall i (removeWall i s)) = present (removeWall i s)
   \<and> present (removeDoor i (removeDoor i s)) = present (removeDoor i s)
   \<and> present (removeWindow i (removeWindow i s)) = present (removeWindow i s)
   \<and> present (removeRoom i (removeRoom i s)) = present (removeRoom i s)
   \<and> present (removeFurniture i (removeFurniture i s)) = present (removeFurniture i s)
   \<and> present (removeSelected ids (removeSelected ids s)) = present (removeSelected ids s)"
proof -
  have w: "present (updateWall i wu s) = present s" if "i \<notin> wall_id ` set (walls (present s))"
  proof -
    have "patchFirst (\<lambda>w. wall_id w = i) (assignWall wu) (walls (present s)) = walls (present s)"
      using that by (intro patchFirst_absent) auto
    then show ?thesis by (simp add: action_eqs)
  qed
  have d: "present (updateDoor i du s) = present s" if "i \<notin> door_id ` set (doors (present s))"
  proof -
    have "patchFirst (\<lambda>d. door_id d = i) (assignDoor du) (doors (present s)) = doors (present s)"
      using that by (intro patchFirst_absent) auto
    then show ?thesis by (simp add: action_eqs)
  qed
  have n: "present (updateWindow i nu s) = present s"
    if "i \<notin> window_id ` set (windows (present s))"
  proof -
    have "patchFirst (\<lambda>w. window_id w = i) (assignWindow nu) (windows (present s))
            = windows (present s)"
      using that by (intro patchFirst_absent) auto
    then show ?thesis by (simp add: action_eqs)
  qed
  have r: "present (updateRoom i ru s) = present s" if "i \<notin> room_id ` set (rooms (present s))"
  proof -
    have "patchFirst (\<lambda>r. room_id r = i) (assignRoom ru) (rooms (present s)) = rooms (present s)"
      using that by (intro patchFirst_absent) auto
    then show ?thesis by (simp add: action_eqs)
  qed
  have f: "present (updateFurniture i fu s) = present s"
    if "i \<notin> furn_id ` set (furniture (present s))"
  proof -
    have "patchFirst (\<lambda>f. furn_id f = i) (assignFurniture fu) (furniture (present s))
            = furniture (present s)"
      using that by (intro patchFirst_absent) auto
    then show ?thesis by (simp add: action_eqs)
  qed
  have rm: "present (removeWall i (removeWall i s)) = present (removeWall i s)"
    "present (removeDoor i (removeDoor i s)) = present (removeDoor i s)"
    "present (removeWindow i (removeWindow i s)) = present (removeWindow i s)"
    "present (removeRoom i (removeRoom i s)) = present (removeRoom i s)"
    "present (removeFurniture i (removeFurniture i s)) = present (removeFurniture i s)"
    "present (removeSelected ids (removeSelected ids s)) = present (removeSelected ids s)"
    by (simp_all add: action_eqs)
  from w d n r f rm show ?thesis by blast
qed

theorem dangling_id_noop_witness:
  "''zz'' \<notin> wall_id ` set (walls (present examplePlan))
   \<and> ''zz'' \<notin> door_id ` set (doors (present examplePlan))
   \<and> ''zz'' \<notin> window_id ` set (windows (present examplePlan))
   \<and> ''zz'' \<notin> room_id ` set (rooms (present examplePlan))
   \<and> ''zz'' \<notin> furn_id ` set (furniture (present examplePlan))
   \<and> present (updateWall ''zz'' \<lparr>wu_start = None, wu_end = None, wu_thickness = Some 8\<rparr>
        examplePlan) = present examplePlan
   \<and> present (updateDoor ''zz''
        \<lparr>du_wallId = None, du_position = Some 0, du_width = None, du_swingDirection = None,
         du_swingInward = None\<rparr> examplePlan) = present examplePlan
   \<and> present (updateWindow ''zz''
        \<lparr>nu_wallId = None, nu_position = None, nu_width = Some 24, nu_height = None\<rparr>
        examplePlan) = present examplePlan
   \<and> present (updateRoom ''zz''
        \<lparr>ru_name = Some ''Den'', ru_type = None, ru_wallIds = None, ru_color = None\<rparr>
        examplePlan) = present examplePlan
   \<and> present (updateFurniture ''zz'' (noFurnitureUpdates\<lparr>fu_rotation := Some 90\<rparr>)
        examplePlan) = present examplePlan"
proof -
  have h: "''zz'' \<notin> wall_id ` set (walls (present examplePlan))"
    "''zz'' \<notin> door_id ` set (doors (present examplePlan))"
    "''zz'' \<notin> window_id ` set (windows (present examplePlan))"
    "''zz'' \<notin> room_id ` set (rooms (present examplePlan))"
    "''zz'' \<notin> furn_id ` set (furniture (present examplePlan))"
    by (simp_all add: examplePlan_present createEmptyFloorplan_def)
  show ?thesis
    using h dangling_id_noop [where i = "''zz''" and s = examplePlan
        and wu = "\<lparr>wu_start = None, wu_end = None, wu_thickness = Some 8\<rparr>"
        and du = "\<lparr>du_wallId = None, du_position = Some 0, du_width = None,
                   du_swingDirection = None, du_swingInward = None\<rparr>"
        and nu = "\<lparr>nu_wallId = None, nu_position = None, nu_width = Some 24, nu_height = None\<rparr>"
        and ru = "\<lparr>ru_name = Some ''Den'', ru_type = None, ru_wallIds = None, ru_color = None\<rparr>"
        and fu = "noFurnitureUpdates\<lparr>fu_rotation := Some 90\<rparr>"]
    by blast
qed

section \<open>Snapping to the grid\<close>

lemma floor_int_half: "\<lfloor>of_int k + (1 / 2 :: real)\<rfloor> = k"
  by (rule floor_unique) simp_all

lemma snap_axis:
  "Math_round (v / (DEFAULTS_snapIncrement * DEFAULTS_scale))
     * (DEFAULTS_snapIncrement * DEFAULTS_scale)
   = 60 * of_int \<lfloor>v / 60 + 1 / 2\<rfloor>"
  by (simp add: Math_round_def DEFAULTS_snapIncrement_def DEFAULTS_scale_def)

text \<open>No multiple of 60 is closer to \<open>v\<close> than the one the rounding picks.\<close>

lemma snap_nearest:
  fixes v :: real
  shows "\<bar>60 * of_int \<lfloor>v / 60 + 1 / 2\<rfloor> - v\<bar> \<le> \<bar>60 * of_int m - v\<bar>"
proof -
  define r where "r = \<lfloor>v / 60 + 1 / 2\<rfloor>"
  have lo: "of_int r \<le> v / 60 + 1 / 2" unfolding r_def by (rule of_int_floor_le)
  have hi: "v / 60 + 1 / 2 < of_int r + 1" unfolding r_def by linarith
  have near: "\<bar>60 * of_int r - v\<bar> \<le> 30" using lo hi by (simp add: abs_le_iff field_simps)
  consider "m = r" | "m \<le> r - 1" | "r + 1 \<le> m" by linarith
  then have "\<bar>60 * of_int r - v\<bar> \<le> \<bar>60 * of_int m - v\<bar>"
  proof cases
    case 1
    then show ?thesis by simp
  next
    case 2
    then have "(of_int m :: real) \<le> of_int r - 1" by (metis of_int_le_iff of_int_diff of_int_1)
    then have "30 \<le> v - 60 * of_int m" using lo by (simp add: field_simps)
    then show ?thesis using near by linarith
  next
    case 3
    then have "(of_int r :: real) + 1 \<le> of_int m" by (metis of_int_le_iff of_int_add of_int_1)
    then have "30 \<le> 60 * of_int m - v" using hi by (simp add: field_simps)
    then show ?thesis using near by linarith
  qed
  then show ?thesis by (simp add: r_def)
qed

text \<open>
  C8. With snapping disabled the point is returned unchanged. With snapping enabled each
  coordinate is rounded on its own, from that coordinate alone, to a multiple of 60 (6
  inches at 10 pixels per inch), and no multiple of 60 is nearer to the raw coordinate.
  A point on the grid is returned unchanged, and snapping a snapped point changes
  nothing.
\<close>

theorem snapping_per_axis:
  "snapToGridPoint False x y = \<lparr>pt_x = x, pt_y = y\<rparr>
   \<and> pt_x (snapToGridPoint True x y) = 60 * of_int \<lfloor>x / 60 + 1 / 2\<rfloor>
   \<and> pt_y (snapToGridPoint True x y) = 60 * of_int \<lfloor>y / 60 + 1 / 2\<rfloor>
   \<and> \<bar>pt_x (snapToGridPoint True x y) - x\<bar> \<le> \<bar>60 * of_int m - x\<bar>
   \<and> \<bar>pt_y (snapToGridPoint True x y) - y\<bar> \<le> \<bar>60 * of_int n - y\<bar>
   \<and> snapToGridPoint True (60 * of_int j) (60 * of_int k)
       = \<lparr>pt_x = 60 * of_int j, pt_y = 60 * of_int k\<rparr>
   \<and> snapToGridPoint True (pt_x (snapToGridPoint True x y)) (pt_y (snapToGridPoint True x y))
       = snapToGridPoint True x y"
proof -
  have eq: "snapToGridPoint True a b =
      \<lparr>pt_x = 60 * of_int \<lfloor>a / 60 + 1 / 2\<rfloor>, pt_y = 60 * of_int \<lfloor>b / 60 + 1 / 2\<rfloor>\<rparr>" for a b
    by (simp add: snapToGridPoint_def Let_def snap_axis)
  have off: "snapToGridPoint False x y = \<lparr>pt_x = x, pt_y = y\<rparr>"
    by (simp add: snapToGridPoint_def)
  have grid: "snapToGridPoint True (60 * of_int j') (60 * of_int k')
       = \<lparr>pt_x = 60 * of_int j', pt_y = 60 * of_int k'\<rparr>" for j' k'
    by (simp add: eq floor_int_half)
  have idem: "snapToGridPoint True (pt_x (snapToGridPoint True x y)) (pt_y (snapToGridPoint True x y))
       = snapToGridPoint True x y"
    by (simp add: eq [of x y] grid)
  show ?thesis
    using off grid idem snap_nearest [of x m] snap_nearest [of y n] by (simp add: eq)
qed

section \<open>Releasing a wall gesture\<close>

lemma sqrt_100: "sqrt 100 = 10"
  by (rule real_sqrt_unique) simp_all

text \<open>
  C7, as stated: a release at a distance that is not below 10 invokes \<^verbatim>\<open>addWall\<close>. It fails
  for a drag from (0, 0) to (10, 0) with snapping off: the distance is 10, not below 10,
  and the store is left as it was, which is not the store after \<^verbatim>\<open>addWall\<close>.
\<close>

theorem release_at_threshold_counterexample:
  "\<not> sqrt ((10 - 0) * (10 - 0) + (0 - 0) * (0 - 0)) < (10 :: real)
   \<and> snd (handleMouseUp ''w1'' \<lparr>pt_x = 10, pt_y = 0\<rparr>
          (drawingCanvas False \<lparr>pt_x = 0, pt_y = 0\<rparr>, initialState ''fp0''))
       = initialState ''fp0''
   \<and> snd (handleMouseUp ''w1'' \<lparr>pt_x = 10, pt_y = 0\<rparr>
          (drawingCanvas False \<lparr>pt_x = 0, pt_y = 0\<rparr>, initialState ''fp0''))
       \<noteq> addWall ''w1'' \<lparr>pt_x = 0 / 10, pt_y = 0 / 10\<rparr> \<lparr>pt_x = 10 / 10, pt_y = 0 / 10\<rparr> None
            (initialState ''fp0'')"
  by (simp add: handleMouseUp_def drawingCanvas_def sqrt_100 eval_defs)

text \<open>
  C7, amended. On the release of a wall gesture (a drag is in progress, the wall tool is
  active, the canvas exists) the handler measures the straight-line distance between the
  start point and the release point, the latter snapped when snapping is on. When the
  distance is at most 10 the store is left as it was. When it exceeds 10 the store is the
  result of one \<^verbatim>\<open>addWall\<close> whose endpoints are the two points divided by the scale 10, with
  the default thickness. In both cases the component is idle afterwards.
\<close>

theorem release_of_wall_gesture:
  assumes "isDrawing c" and "activeTool c = tool_wall" and "hasCanvas c"
    and "drawStart c = Some start"
  shows "let q = snapToGridPoint (snapToGrid c) (pt_x pointer) (pt_y pointer);
             len = sqrt ((pt_x q - pt_x start) * (pt_x q - pt_x start)
                        + (pt_y q - pt_y start) * (pt_y q - pt_y start))
         in fst (handleMouseUp newId pointer (c, s)) = c\<lparr>isDrawing := False, drawStart := None\<rparr>
            \<and> (len \<le> 10 \<longrightarrow> snd (handleMouseUp newId pointer (c, s)) = s)
            \<and> (10 < len \<longrightarrow> snd (handleMouseUp newId pointer (c, s)) =
                  addWall newId \<lparr>pt_x = pt_x start / 10, pt_y = pt_y start / 10\<rparr>
                    \<lparr>pt_x = pt_x q / 10, pt_y = pt_y q / 10\<rparr> None s)"
proof (cases "snapToGrid c")
  case True
  with assms show ?thesis
    by (simp add: handleMouseUp_def Let_def DEFAULTS_scale_def)
next
  case False
  with assms show ?thesis
    by (simp add: handleMouseUp_def Let_def DEFAULTS_scale_def snapToGridPoint_def)
qed

theorem release_of_wall_gesture_witness:
  "isDrawing (drawingCanvas True \<lparr>pt_x = 0, pt_y = 0\<rparr>)
   \<and> activeTool (drawingCanvas True \<lparr>pt_x = 0, pt_y = 0\<rparr>) = tool_wall
   \<and> hasCanvas (drawingCanvas True \<lparr>pt_x = 0, pt_y = 0\<rparr>)
   \<and> drawStart (drawingCanvas True \<lparr>pt_x = 0, pt_y = 0\<rparr>) = Some \<lparr>pt_x = 0, pt_y = 0\<rparr>
   \<and> snapToGridPoint True 130 10 = \<lparr>pt_x = 120, pt_y = 0\<rparr>
   \<and> (10 :: real) < sqrt ((120 - 0) * (120 - 0) + (0 - 0) * (0 - 0))
   \<and> snd (handleMouseUp ''w1'' \<lparr>pt_x = 130, pt_y = 10\<rparr>
          (drawingCanvas True \<lparr>pt_x = 0, pt_y = 0\<rparr>, initialState ''fp0''))
       = addWall ''w1'' \<lparr>pt_x = 0, pt_y = 0\<rparr> \<lparr>pt_x = 12, pt_y = 0\<rparr> None (initialState ''fp0'')"
proof -
  have h: "isDrawing (drawingCanvas True \<lparr>pt_x = 0, pt_y = 0\<rparr>)"
    "activeTool (drawingCanvas True \<lparr>pt_x = 0, pt_y = 0\<rparr>) = tool_wall"
    "hasCanvas (drawingCanvas True \<lparr>pt_x = 0, pt_y = 0\<rparr>)"
    "drawStart (drawingCanvas True \<lparr>pt_x = 0, pt_y = 0\<rparr>) = Some \<lparr>pt_x = 0, pt_y = 0\<rparr>"
    by (simp_all add: drawingCanvas_def)
  have g: "snapToGrid (drawingCanvas True \<lparr>pt_x = 0, pt_y = 0\<rparr>) = True"
    by (simp add: drawingCanvas_def)
  have q: "snapToGridPoint True 130 10 = \<lparr>pt_x = 120, pt_y = 0\<rparr>"
    by (simp add: snapToGridPoint_def Math_round_def DEFAULTS_snapIncrement_def
        DEFAULTS_scale_def)
  have l: "(10 :: real) < sqrt ((120 - 0) * (120 - 0) + (0 - 0) * (0 - 0))"
    by (simp add: real_less_rsqrt)
  show ?thesis
    using h q l
      release_of_wall_gesture [OF h, of "\<lparr>pt_x = 130, pt_y = 10\<rparr>" "''w1''" "initialState ''fp0''"]
    by (simp add: g Let_def)
qed

section \<open>The agent bridge: \<^verbatim>\<open>clearAll\<close> and dangling targets\<close>

text \<open>
  C9, as stated: the reset runs if and only if \<^verbatim>\<open>confirm\<close> is strictly \<^verbatim>\<open>true\<close>. It fails for
  \<^verbatim>\<open>{confirm: 1}\<close>: the value is not \<^verbatim>\<open>true\<close>, the reset runs on the sample document, success
  is reported, and the present document has changed.
\<close>

theorem clearAll_truthy_counterexample:
  "JNumber 1 \<noteq> JBool True
   \<and> executeToolCall ''fp1'' (Call_clearAll (JNumber 1)) examplePlan
       = (resetFloorplan ''fp1'' examplePlan, True)
   \<and> present (resetFloorplan ''fp1'' examplePlan) \<noteq> present examplePlan"
  by (simp add: examplePlan_present eval_defs)

text \<open>
  C9, amended. \<^verbatim>\<open>clearAll\<close> runs the reset, leaving an empty document, and reports
  \<^verbatim>\<open>true\<close> exactly when \<^verbatim>\<open>confirm\<close> is truthy; otherwise the store is untouched and
  \<^verbatim>\<open>false\<close> is returned, nothing is thrown. A boolean \<^verbatim>\<open>confirm\<close> is truthy exactly when it
  is \<^verbatim>\<open>true\<close>; an absent one, \<^verbatim>\<open>null\<close>, 0 and the empty string are not truthy.
\<close>

theorem clearAll_runs_iff_truthy:
  "(truthy confirm \<longrightarrow>
      executeToolCall newId (Call_clearAll confirm) s = (resetFloorplan newId s, True)
      \<and> present (resetFloorplan newId s) = createEmptyFloorplan newId)
   \<and> (\<not> truthy confirm \<longrightarrow> executeToolCall newId (Call_clearAll confirm) s = (s, False))
   \<and> (truthy (JBool b) \<longleftrightarrow> b)
   \<and> \<not> truthy JUndefined \<and> \<not> truthy JNull \<and> \<not> truthy (JNumber 0) \<and> \<not> truthy (JString [])"
  by (simp add: action_eqs)

theorem clearAll_runs_iff_truthy_witness:
  "truthy (JBool True)
   \<and> executeToolCall ''fp1'' (Call_clearAll (JBool True)) examplePlan
       = (resetFloorplan ''fp1'' examplePlan, True)
   \<and> present (resetFloorplan ''fp1'' examplePlan) = createEmptyFloorplan ''fp1''
   \<and> \<not> truthy JUndefined
   \<and> executeToolCall ''fp1'' (Call_clearAll JUndefined) examplePlan = (examplePlan, False)
   \<and> \<not> truthy (JBool False)
   \<and> executeToolCall ''fp1'' (Call_clearAll (JBool False)) examplePlan = (examplePlan, False)"
  using clearAll_runs_iff_truthy [of "JBool True" "''fp1''" examplePlan True]
    clearAll_runs_iff_truthy [of JUndefined "''fp1''" examplePlan True]
    clearAll_runs_iff_truthy [of "JBool False" "''fp1''" examplePlan True]
  by simp

text \<open>
  C10, as stated: a \<^verbatim>\<open>removeWall\<close> call whose target identifier no wall carries is a no-op
  that reports success. It fails on the document with the orphaned door and window: no
  wall has the identifier \<open>ghost\<close>, the call returns \<^verbatim>\<open>true\<close>, and the door and the window
  that name \<open>ghost\<close> are gone, so the present document has changed.
\<close>

theorem removeWall_orphans_counterexample:
  "''ghost'' \<notin> wall_id ` set (walls (present orphanPlan))
   \<and> snd (executeToolCall ''x'' (Call_removeWall ''ghost'') orphanPlan) = True
   \<and> map door_id (doors (present orphanPlan)) = [''d1'', ''d9'']
   \<and> map door_id (doors (present (fst (executeToolCall ''x'' (Call_removeWall ''ghost'')
         orphanPlan)))) = [''d1'']
   \<and> present (fst (executeToolCall ''x'' (Call_removeWall ''ghost'') orphanPlan))
       \<noteq> present orphanPlan"
proof -
  have p: "present orphanPlan =
      (present examplePlan)
        \<lparr>doors := doors (present examplePlan) @
           [\<lparr>door_id = ''d9'', door_wallId = ''ghost'', door_position = 1 / 2,
             door_width = 32, door_swingDirection = swing_left, door_swingInward = True\<rparr>],
         windows := windows (present examplePlan) @
           [\<lparr>window_id = ''n9'', window_wallId = ''ghost'', window_position = 1 / 4,
             window_width = 36, window_height = 48\<rparr>]\<rparr>"
    by (simp add: orphanPlan_def action_eqs orElse_def DEFAULTS_doorWidth_def
        DEFAULTS_windowWidth_def DEFAULTS_windowHeight_def)
  have d: "doors (present (removeWall ''ghost'' orphanPlan)) \<noteq> doors (present orphanPlan)"
    by (simp add: action_eqs p examplePlan_present createEmptyFloorplan_def)
  have "present (removeWall ''ghost'' orphanPlan) \<noteq> present orphanPlan"
    using d by auto
  then show ?thesis
    by (simp add: action_eqs p examplePlan_present createEmptyFloorplan_def)
qed

text \<open>
  C10, amended. \<^verbatim>\<open>executeToolCall\<close> returns \<^verbatim>\<open>true\<close> for every \<^verbatim>\<open>moveFurniture\<close>,
  \<^verbatim>\<open>rotateFurniture\<close> and \<^verbatim>\<open>removeWall\<close> call, whatever the target. When no furniture item
  carries the target identifier, the first two leave the present document as it was.
  When no wall carries it, \<^verbatim>\<open>removeWall\<close> leaves the walls as they were and still removes
  every door and window that names the identifier as its wall; the present document is
  unchanged exactly when there is no such door or window.
\<close>

theorem dangling_target_reports_success:
  "snd (executeToolCall newId (Call_moveFurniture fid x y) s) = True
   \<and> snd (executeToolCall newId (Call_rotateFurniture fid r) s) = True
   \<and> snd (executeToolCall newId (Call_removeWall wid) s) = True
   \<and> (fid \<notin> furn_id ` set (furniture (present s)) \<longrightarrow>
        present (fst (executeToolCall newId (Call_moveFurniture fid x y) s)) = present s
        \<and> present (fst (executeToolCall newId (Call_rotateFurniture fid r) s)) = present s)
   \<and> (wid \<notin> wall_id ` set (walls (present s)) \<longrightarrow>
        walls (present (fst (executeToolCall newId (Call_removeWall wid) s))) = walls (present s))
   \<and> (wid \<notin> wall_id ` set (walls (present s))
        \<and> wid \<notin> door_wallId ` set (doors (present s))
        \<and> wid \<notin> window_wallId ` set (windows (present s)) \<longrightarrow>
        present (fst (executeToolCall newId (Call_removeWall wid) s)) = present s)
   \<and> (wid \<notin> wall_id ` set (walls (present s)) \<longrightarrow>
        present (fst (executeToolCall newId (Call_removeWall wid) s)) =
          (present s)\<lparr>doors := filter (\<lambda>d. door_wallId d \<noteq> wid) (doors (present s)),
                       windows := filter (\<lambda>w. window_wallId w \<noteq> wid) (windows (present s))\<rparr>)
   \<and> (wid \<notin> wall_id ` set (walls (present s)) \<longrightarrow>
        (present (fst (executeToolCall newId (Call_removeWall wid) s)) = present s
         \<longleftrightarrow> wid \<notin> door_wallId ` set (doors (present s))
             \<and> wid \<notin> window_wallId ` set (windows (present s))))"
proof -
  have f: "present (updateFurniture fid u s) = present s"
    if "fid \<notin> furn_id ` set (furniture (present s))" for u
  proof -
    have "patchFirst (\<lambda>f. furn_id f = fid) (assignFurniture u) (furniture (present s))
            = furniture (present s)"
      using that by (intro patchFirst_absent) auto
    then show ?thesis by (simp add: action_eqs)
  qed
  have keep: "(filter (\<lambda>a. g a \<noteq> wid) xs = xs) = (wid \<notin> g ` set xs)"
    for g :: "'a \<Rightarrow> string" and xs
    by (auto simp add: filter_id_conv)
  have w: "walls (present (removeWall wid s)) = walls (present s)"
    if "wid \<notin> wall_id ` set (walls (present s))"
    using that by (simp add: action_eqs keep)
  have e: "present (removeWall wid s) =
          (present s)\<lparr>doors := filter (\<lambda>d. door_wallId d \<noteq> wid) (doors (present s)),
                       windows := filter (\<lambda>w. window_wallId w \<noteq> wid) (windows (present s))\<rparr>"
    if "wid \<notin> wall_id ` set (walls (present s))"
    using that by (simp add: action_eqs keep)
  have a: "present (removeWall wid s) = present s"
    if "wid \<notin> wall_id ` set (walls (present s))"
      and "wid \<notin> door_wallId ` set (doors (present s))"
      and "wid \<notin> window_wallId ` set (windows (present s))"
    using that by (simp add: action_eqs keep)
  have i: "(present (removeWall wid s) = present s)
          = (wid \<notin> door_wallId ` set (doors (present s))
             \<and> wid \<notin> window_wallId ` set (windows (present s)))"
    if nw: "wid \<notin> wall_id ` set (walls (present s))"
  proof
    assume eq: "present (removeWall wid s) = present s"
    have "doors (present (removeWall wid s)) = filter (\<lambda>d. door_wallId d \<noteq> wid) (doors (present s))"
      "windows (present (removeWall wid s))
         = filter (\<lambda>w. window_wallId w \<noteq> wid) (windows (present s))"
      by (simp_all add: e [OF nw])
    with eq have "filter (\<lambda>d. door_wallId d \<noteq> wid) (doors (present s)) = doors (present s)"
      "filter (\<lambda>w. window_wallId w \<noteq> wid) (windows (present s)) = windows (present s)"
      by simp_all
    then show "wid \<notin> door_wallId ` set (doors (present s))
             \<and> wid \<notin> window_wallId ` set (windows (present s))"
      by (simp add: keep)
  next
    assume "wid \<notin> door_wallId ` set (doors (present s))
             \<and> wid \<notin> window_wallId ` set (windows (present s))"
    then show "present (removeWall wid s) = present s" using a [OF nw] by simp
  qed
  from f w a e i show ?thesis by simp
qed

theorem dangling_target_reports_success_witness:
  "''zz'' \<notin> furn_id ` set (furniture (present examplePlan))
   \<and> ''zz'' \<notin> wall_id ` set (walls (present examplePlan))
   \<and> ''zz'' \<notin> door_wallId ` set (doors (present examplePlan))
   \<and> ''zz'' \<notin> window_wallId ` set (windows (present examplePlan))
   \<and> snd (executeToolCall ''x'' (Call_moveFurniture ''zz'' 5 7) examplePlan) = True
   \<and> present (fst (executeToolCall ''x'' (Call_moveFurniture ''zz'' 5 7) examplePlan))
       = present examplePlan
   \<and> snd (executeToolCall ''x'' (Call_rotateFurniture ''zz'' 90) examplePlan) = True
   \<and> present (fst (executeToolCall ''x'' (Call_rotateFurniture ''zz'' 90) examplePlan))
       = present examplePlan
   \<and> snd (executeToolCall ''x'' (Call_removeWall ''zz'') examplePlan) = True
   \<and> present (fst (executeToolCall ''x'' (Call_removeWall ''zz'') examplePlan))
       = present examplePlan"
proof -
  have h: "''zz'' \<notin> furn_id ` set (furniture (present examplePlan))"
    "''zz'' \<notin> wall_id ` set (walls (present examplePlan))"
    "''zz'' \<notin> door_wallId ` set (doors (present examplePlan))"
    "''zz'' \<notin> window_wallId ` set (windows (present examplePlan))"
    by (simp_all add: examplePlan_present createEmptyFloorplan_def)
  show ?thesis
    using h dangling_target_reports_success [where fid = "''zz''" and wid = "''zz''"
        and s = examplePlan and newId = "''x''" and x = 5 and y = 7 and r = 90]
    by simp
qed

text \<open>
  The furniture lookup of the bridge on a known type, on an unknown type, and on a name
  that every object inherits.
\<close>

lemma lookupDimensions_examples:
  "lookupDimensions ''bed-queen'' = Some (Some 60, Some 80)
   \<and> lookupDimensions ''unknown-type'' = None
   \<and> lookupDimensions ''constructor'' = Some (None, None)"
  by (simp add: lookupDimensions_def FURNITURE_DIMENSIONS_def Object_prototype_keys_def)

end
